theory Spec2Isabelle
  imports Complex_Main
begin

section \<open>Python values shared by the registries\<close>

text \<open>
  The exceptions the modelled code raises. An operation returns its result (or the
  exception) together with the state it leaves behind: a Python exception does not undo
  the assignments made before it was raised.
\<close>

datatype error = TypeError | ValueError | KeyError | AttributeError | IndexError

text \<open>
  A Python \<^verbatim>\<open>set\<close> of objects is kept as the list of its members in the order an iteration
  visits them; objects are compared by identity (their reference). Python does not
  promise any particular iteration order: \<open>set_add\<close> places a new member last, which is one
  admissible order, and no theorem below about what a collection contains relies on it.
\<close>

definition set_add :: "'a list \<Rightarrow> 'a \<Rightarrow> 'a list" where
  "set_add xs x = (if x \<in> set xs then xs else xs @ [x])"


text \<open>\<^verbatim>\<open>enumerate(xs, start)\<close>.\<close>

definition enumerate_from :: "int \<Rightarrow> 'a list \<Rightarrow> (int \<times> 'a) list" where
  "enumerate_from start xs = zip (map (\<lambda>i. start + int i) [0..<length xs]) xs"

section \<open>The entity graph of \<^verbatim>\<open>model/parts.py\<close>\<close>

text \<open>
  Objects live in a store indexed by reference; a Part holds references. Coordinates are
  Python floats, modelled as reals with exact arithmetic.
\<close>

type_synonym point = "real \<times> real \<times> real"

record node =
  xyz :: point
  key :: "int option"
  registration :: "nat option"
  connected_elements :: "nat list"

text \<open>
  The attribute \<^verbatim>\<open>_orientation\<close> of an element: absent (\<^verbatim>\<open>hasattr\<close> is false), present
  and \<^verbatim>\<open>None\<close> (as \<^verbatim>\<open>AbaqusTrussElement.__init__\<close> sets it), or a vector. The only thing the
  code reads of a vector's components is \<^verbatim>\<open>str(i)\<close>, so a vector is kept as the list of
  those texts.
\<close>

datatype orientation_attr = NoAttr | AttrNone | Vec "string list"

record element =
  el_nodes :: "nat list"
  el_section :: "nat option"
  el_key :: "int option"
  eltype :: string
  orientation :: orientation_attr
  el_registration :: "nat option"

record material =
  m_name :: string
  m_key :: "int option"
  m_registration :: "nat option"

text \<open>
  The owning Model, seen through the one thing a Part reads of it: the length of
  \<^verbatim>\<open>model.nodes\<close>, which may depend on the nodes the Part holds.
\<close>

record model =
  model_nodes_len :: "nat list \<Rightarrow> nat"

text \<open>
  A section's \<^verbatim>\<open>material\<close> attribute is \<open>Some m\<close> when it is a Material object and \<open>None\<close>
  when it is anything else (\<^verbatim>\<open>isinstance(material, _Material)\<close> fails); likewise an
  element's \<^verbatim>\<open>section\<close>.
\<close>

record fea_section =
  s_name :: string
  s_material :: "nat option"
  s_key :: "int option"
  s_registration :: "model option"

datatype group_kind = NodesGroup | ElementsGroup | FacesGroup

record group =
  g_name :: string
  g_kind :: group_kind
  g_members :: "nat list"
  g_registration :: "nat option"

record part =
  part_id :: nat
  p_name :: string
  p_registration :: "model option"
  p_key :: "int option"
  nodes :: "nat list"
  gkey_node :: "string \<rightharpoonup> nat"
  sections :: "nat list"
  materials :: "nat list"
  elements :: "nat list"
  releases :: "nat list"
  nodesgroups :: "nat list"
  elementsgroups :: "nat list"
  facesgroups :: "nat list"

record world =
  node_of :: "nat \<Rightarrow> node"
  element_of :: "nat \<Rightarrow> element"
  section_of :: "nat \<Rightarrow> fea_section"
  material_of :: "nat \<Rightarrow> material"
  group_of :: "nat \<Rightarrow> group"
  next_group :: nat
  part :: part

text \<open>
  The process-wide settings of \<^verbatim>\<open>compas_fea2/__init__.py\<close> (\<^verbatim>\<open>VERBOSE\<close>,
  \<^verbatim>\<open>POINT_OVERLAP\<close>, \<^verbatim>\<open>GLOBAL_TOLERANCE\<close>, the last read as a number) and the library
  function \<^verbatim>\<open>compas.utilities.maps.geometric_key\<close> behind \<^verbatim>\<open>Node.gkey\<close>.
\<close>

record globals =
  VERBOSE :: bool
  POINT_OVERLAP :: bool
  GLOBAL_TOLERANCE :: real
  geometric_key :: "point \<Rightarrow> string"

subsection \<open>Nodes\<close>

definition distance_point_point_sqrd :: "point \<Rightarrow> point \<Rightarrow> real" where
  "distance_point_point_sqrd a b =
     (case a of (ax, ay, az) \<Rightarrow> case b of (bx, by, bz) \<Rightarrow>
        (bx - ax)\<^sup>2 + (by - ay)\<^sup>2 + (bz - az)\<^sup>2)"

definition gkey :: "globals \<Rightarrow> world \<Rightarrow> nat \<Rightarrow> string" where
  "gkey g w n = geometric_key g (xyz (node_of w n))"

definition contains_node :: "world \<Rightarrow> nat \<Rightarrow> bool" where
  "contains_node w n = (n \<in> set (nodes (part w)))"


text \<open>
  \<^verbatim>\<open>find_nodes_around_point(point, distance)\<close> with its defaults (no plane, no report,
  \<^verbatim>\<open>single=False\<close>): the nodes strictly closer than \<^verbatim>\<open>distance\<close>, in iteration order;
  the empty list when there is none.
\<close>

definition find_nodes_around_point :: "world \<Rightarrow> point \<Rightarrow> real \<Rightarrow> nat list" where
  "find_nodes_around_point w p distance =
     (let d2 = distance\<^sup>2
      in filter (\<lambda>n. distance_point_point_sqrd (xyz (node_of w n)) p < d2) (nodes (part w)))"

text \<open>
  \<^verbatim>\<open>_Part.add_node\<close>. The argument is a Node, so the \<^verbatim>\<open>isinstance\<close> test passes. With
  \<^verbatim>\<open>VERBOSE\<close> on, the \<^verbatim>\<open>return node\<close> of the first block is reached whether or not the
  node is in the part. Otherwise, unless points may overlap, the first node found around
  the new node's location is returned. Only then is the node registered; the key that
  is written is the Part's own \<^verbatim>\<open>_key\<close>, and only when the Part has a model.
\<close>

definition register_node :: "globals \<Rightarrow> nat \<Rightarrow> world \<Rightarrow> world" where
  "register_node g n w =
     (let p = part w;
          p1 = (case p_registration p of
                  None \<Rightarrow> p
                | Some m \<Rightarrow> p\<lparr>p_key := Some (int (model_nodes_len m (nodes p)))\<rparr>);
          p2 = p1\<lparr>nodes := set_add (nodes p1) n\<rparr>;
          p3 = p2\<lparr>gkey_node := (gkey_node p2)(gkey g w n \<mapsto> n)\<rparr>
      in w\<lparr>part := p3,
            node_of := (node_of w)(n := (node_of w n)\<lparr>registration := Some (part_id p)\<rparr>)\<rparr>)"

definition add_node :: "globals \<Rightarrow> nat \<Rightarrow> world \<Rightarrow> (error + nat) \<times> world" where
  "add_node g n w =
     (if VERBOSE g then (Inr n, w)
      else if \<not> POINT_OVERLAP g
              \<and> find_nodes_around_point w (xyz (node_of w n)) (GLOBAL_TOLERANCE g) \<noteq> []
      then (Inr (hd (find_nodes_around_point w (xyz (node_of w n)) (GLOBAL_TOLERANCE g))), w)
      else (Inr n, register_node g n w))"


text \<open>
  \<^verbatim>\<open>assign_keys(start)\<close>: nodes, elements, sections and materials are numbered from
  \<^verbatim>\<open>start\<close> (1 by default) in the iteration order of their sets.
\<close>

definition assign_keys :: "int \<Rightarrow> world \<Rightarrow> world" where
  "assign_keys start w =
     w\<lparr>node_of := fold (\<lambda>(c, n) h. h(n := (h n)\<lparr>key := Some c\<rparr>))
                     (enumerate_from start (nodes (part w))) (node_of w),
       element_of := fold (\<lambda>(c, e) h. h(e := (h e)\<lparr>el_key := Some c\<rparr>))
                     (enumerate_from start (elements (part w))) (element_of w),
       section_of := fold (\<lambda>(c, s) h. h(s := (h s)\<lparr>s_key := Some c\<rparr>))
                     (enumerate_from start (sections (part w))) (section_of w),
       material_of := fold (\<lambda>(c, m) h. h(m := (h m)\<lparr>m_key := Some c\<rparr>))
                     (enumerate_from start (materials (part w))) (material_of w)\<rparr>"








subsection \<open>Nearest nodes\<close>




subsection \<open>Materials, sections and elements\<close>

text \<open>\<^verbatim>\<open>_Part.add_material\<close>: a \<^verbatim>\<open>TypeError\<close> for what is not a Material, else the material
  joins the set and is registered to the part.\<close>

definition add_material :: "nat option \<Rightarrow> world \<Rightarrow> (error + nat) \<times> world" where
  "add_material mo w =
     (case mo of
        None \<Rightarrow> (Inl TypeError, w)
      | Some m \<Rightarrow>
          (Inr m,
           w\<lparr>part := (part w)\<lparr>materials := set_add (materials (part w)) m\<rparr>,
             material_of := (material_of w)
               (m := (material_of w m)\<lparr>m_registration := Some (part_id (part w))\<rparr>)\<rparr>))"

text \<open>\<^verbatim>\<open>_Part.add_section\<close>: the section's material is added first (no test that it is
  already there), then the section; the section is registered to the part's model.\<close>

definition add_section :: "nat option \<Rightarrow> world \<Rightarrow> (error + nat) \<times> world" where
  "add_section so w =
     (case so of
        None \<Rightarrow> (Inl TypeError, w)
      | Some s \<Rightarrow>
          (case add_material (s_material (section_of w s)) w of
             (Inl e, w1) \<Rightarrow> (Inl e, w1)
           | (Inr m, w1) \<Rightarrow>
               (Inr s,
                w1\<lparr>part := (part w1)\<lparr>sections := set_add (sections (part w1)) s\<rparr>,
                   section_of := (section_of w1)
                     (s := (section_of w1 s)\<lparr>s_registration := p_registration (part w1)\<rparr>)\<rparr>)))"

text \<open>\<^verbatim>\<open>add_nodes\<close>: \<^verbatim>\<open>[self.add_node(node) for node in nodes]\<close>.\<close>

fun add_nodes :: "globals \<Rightarrow> nat list \<Rightarrow> world \<Rightarrow> (error + nat list) \<times> world" where
  "add_nodes g [] w = (Inr [], w)"
| "add_nodes g (n # ns) w =
     (case add_node g n w of
        (Inl e, w1) \<Rightarrow> (Inl e, w1)
      | (Inr r, w1) \<Rightarrow>
          (case add_nodes g ns w1 of
             (Inl e, w2) \<Rightarrow> (Inl e, w2)
           | (Inr rs, w2) \<Rightarrow> (Inr (r # rs), w2)))"

definition contains_element :: "world \<Rightarrow> nat \<Rightarrow> bool" where
  "contains_element w e = (e \<in> set (elements (part w)))"

text \<open>\<^verbatim>\<open>for node in element.nodes: node.connected_elements.add(element)\<close>.\<close>

definition connect_nodes :: "nat \<Rightarrow> nat list \<Rightarrow> world \<Rightarrow> world" where
  "connect_nodes e ns w =
     fold (\<lambda>n u. u\<lparr>node_of := (node_of u)
                     (n := (node_of u n)\<lparr>connected_elements :=
                                           set_add (connected_elements (node_of u n)) e\<rparr>)\<rparr>)
          ns w"

text \<open>
  \<^verbatim>\<open>_Part.add_element(element, checks)\<close>, for an argument that is an element. With the
  checks on, an element already in the part is returned at once. Otherwise the element's
  nodes are handed to \<^verbatim>\<open>add_nodes\<close> (whose result is dropped), the element is entered in
  the back-reference set of each of its nodes, its section is added, and the element is
  registered. There is no test that the nodes are in the part.
\<close>

definition add_element :: "globals \<Rightarrow> nat \<Rightarrow> bool \<Rightarrow> world \<Rightarrow> (error + nat) \<times> world" where
  "add_element g e checks w =
     (if checks \<and> contains_element w e then (Inr e, w)
      else
        (case add_nodes g (el_nodes (element_of w e)) w of
           (Inl err, w1) \<Rightarrow> (Inl err, w1)
         | (Inr rs, w1) \<Rightarrow>
             (let w2 = connect_nodes e (el_nodes (element_of w1 e)) w1
              in case add_section (el_section (element_of w2 e)) w2 of
                   (Inl err, w3) \<Rightarrow> (Inl err, w3)
                 | (Inr s, w3) \<Rightarrow>
                     (Inr e,
                      w3\<lparr>part := (part w3)\<lparr>elements := set_add (elements (part w3)) e\<rparr>,
                         element_of := (element_of w3)
                           (e := (element_of w3 e)\<lparr>el_registration :=
                                                      Some (part_id (part w3))\<rparr>)\<rparr>))))"

text \<open>\<^verbatim>\<open>add_elements\<close>: \<^verbatim>\<open>[self.add_element(element) for element in elements]\<close>, checks on.\<close>

fun add_elements :: "globals \<Rightarrow> nat list \<Rightarrow> world \<Rightarrow> (error + nat list) \<times> world" where
  "add_elements g [] w = (Inr [], w)"
| "add_elements g (e # es) w =
     (case add_element g e True w of
        (Inl err, w1) \<Rightarrow> (Inl err, w1)
      | (Inr r, w1) \<Rightarrow>
          (case add_elements g es w1 of
             (Inl err, w2) \<Rightarrow> (Inl err, w2)
           | (Inr rs, w2) \<Rightarrow> (Inr (r # rs), w2)))"

subsection \<open>Groups\<close>

text \<open>
  Modelled from the spec: the group classes of \<^verbatim>\<open>model/groups.py\<close>, which is not among the
  sources. A group is a named set of member references with a discriminator; duplicate
  groups are detected by value and name, so two group objects are the same group when
  kind, name and members agree. Creating a group allocates a fresh object that is not
  registered yet.
\<close>

definition same_group :: "group \<Rightarrow> group \<Rightarrow> bool" where
  "same_group a b =
     (g_kind a = g_kind b \<and> g_name a = g_name b \<and> set (g_members a) = set (g_members b))"

definition new_group :: "string \<Rightarrow> group_kind \<Rightarrow> nat list \<Rightarrow> world \<Rightarrow> nat \<times> world" where
  "new_group name kind members w =
     (next_group w,
      w\<lparr>group_of := (group_of w)
           (next_group w := \<lparr>g_name = name, g_kind = kind, g_members = members,
                             g_registration = None\<rparr>),
        next_group := Suc (next_group w)\<rparr>)"

text \<open>\<^verbatim>\<open>contains_group\<close>: membership in the set that goes with the group's kind.\<close>

definition group_in :: "world \<Rightarrow> nat \<Rightarrow> nat list \<Rightarrow> bool" where
  "group_in w gid gs = (\<exists>h \<in> set gs. same_group (group_of w h) (group_of w gid))"

definition contains_group :: "world \<Rightarrow> nat \<Rightarrow> bool" where
  "contains_group w gid =
     (case g_kind (group_of w gid) of
        NodesGroup \<Rightarrow> group_in w gid (nodesgroups (part w))
      | ElementsGroup \<Rightarrow> group_in w gid (elementsgroups (part w))
      | FacesGroup \<Rightarrow> group_in w gid (facesgroups (part w)))"

text \<open>
  \<^verbatim>\<open>_Part.add_group\<close>: the members of a node group or element group are added to the part
  first; a group the part contains is returned as it is; otherwise the group joins the
  set of its kind and is registered to the part.
\<close>

definition add_group_members :: "globals \<Rightarrow> nat \<Rightarrow> world \<Rightarrow> (error + unit) \<times> world" where
  "add_group_members g gid w =
     (case g_kind (group_of w gid) of
        NodesGroup \<Rightarrow>
          (case add_nodes g (g_members (group_of w gid)) w of
             (Inl e, w1) \<Rightarrow> (Inl e, w1) | (Inr rs, w1) \<Rightarrow> (Inr (), w1))
      | ElementsGroup \<Rightarrow>
          (case add_elements g (g_members (group_of w gid)) w of
             (Inl e, w1) \<Rightarrow> (Inl e, w1) | (Inr rs, w1) \<Rightarrow> (Inr (), w1))
      | FacesGroup \<Rightarrow> (Inr (), w))"

definition register_group :: "nat \<Rightarrow> world \<Rightarrow> world" where
  "register_group gid w =
     (let p = part w;
          p1 = (case g_kind (group_of w gid) of
                  NodesGroup \<Rightarrow> p\<lparr>nodesgroups := nodesgroups p @ [gid]\<rparr>
                | ElementsGroup \<Rightarrow> p\<lparr>elementsgroups := elementsgroups p @ [gid]\<rparr>
                | FacesGroup \<Rightarrow> p\<lparr>facesgroups := facesgroups p @ [gid]\<rparr>)
      in w\<lparr>part := p1,
            group_of := (group_of w)
              (gid := (group_of w gid)\<lparr>g_registration := Some (part_id p)\<rparr>)\<rparr>)"

definition add_group :: "globals \<Rightarrow> nat \<Rightarrow> world \<Rightarrow> (error + nat) \<times> world" where
  "add_group g gid w =
     (case add_group_members g gid w of
        (Inl e, w1) \<Rightarrow> (Inl e, w1)
      | (Inr u, w1) \<Rightarrow>
          (if contains_group w1 gid then (Inr gid, w1)
           else (Inr gid, register_group gid w1)))"

text \<open>
  Modelled from the spec: the property \<^verbatim>\<open>groups\<close> of a part, which \<^verbatim>\<open>_Part\<close> uses but does
  not define: the node, element and face groups of the part.
\<close>

definition groups :: "world \<Rightarrow> nat list" where
  "groups w = nodesgroups (part w) @ elementsgroups (part w) @ facesgroups (part w)"

section \<open>The Abaqus part of \<^verbatim>\<open>backends/abaqus/model\<close>\<close>

subsection \<open>Python helpers\<close>

text \<open>\<^verbatim>\<open>sep.join(parts)\<close>, \<^verbatim>\<open>str(i)\<close> for an integer, \<^verbatim>\<open>s.replace(".", "")\<close> and
  \<^verbatim>\<open>s.split("_")\<close>.\<close>

fun join :: "string \<Rightarrow> string list \<Rightarrow> string" where
  "join sep [] = []"
| "join sep [x] = x"
| "join sep (x # y # ys) = x @ sep @ join sep (y # ys)"

fun str_nat :: "nat \<Rightarrow> string" where
  "str_nat n = (if n < 10 then [char_of (48 + n)]
                else str_nat (n div 10) @ [char_of (48 + n mod 10)])"

declare str_nat.simps [simp del]

definition str_int :: "int \<Rightarrow> string" where
  "str_int i = (if i < 0 then CHR ''-'' # str_nat (nat (- i)) else str_nat (nat i))"

definition remove_dots :: "string \<Rightarrow> string" where
  "remove_dots s = filter (\<lambda>c. c \<noteq> CHR ''.'') s"

fun split_on :: "char \<Rightarrow> string \<Rightarrow> string list" where
  "split_on c [] = [[]]"
| "split_on c (x # xs) =
     (if x = c then [] # split_on c xs
      else (case split_on c xs of [] \<Rightarrow> [[x]] | y # ys \<Rightarrow> (x # y) # ys))"

text \<open>A loop whose body may raise, over a list; and a comprehension whose element
  expression may raise.\<close>

fun fold_err :: "('a \<Rightarrow> 's \<Rightarrow> error + 's) \<Rightarrow> 'a list \<Rightarrow> 's \<Rightarrow> error + 's" where
  "fold_err f [] s = Inr s"
| "fold_err f (x # xs) s = (case f x s of Inl e \<Rightarrow> Inl e | Inr s' \<Rightarrow> fold_err f xs s')"

fun map_err :: "('a \<Rightarrow> error + 'b) \<Rightarrow> 'a list \<Rightarrow> error + 'b list" where
  "map_err f [] = Inr []"
| "map_err f (x # xs) =
     (case f x of
        Inl e \<Rightarrow> Inl e
      | Inr y \<Rightarrow> (case map_err f xs of Inl e \<Rightarrow> Inl e | Inr ys \<Rightarrow> Inr (y # ys)))"

text \<open>
  A dictionary whose values are sets of elements, as the list of its items in insertion
  order: \<^verbatim>\<open>d.setdefault(k, set())\<close> and \<^verbatim>\<open>d[k].add(el)\<close>, the latter a \<^verbatim>\<open>KeyError\<close> for a key
  the dictionary does not have.
\<close>

definition setdefault :: "'k \<Rightarrow> ('k \<times> nat list) list \<Rightarrow> ('k \<times> nat list) list" where
  "setdefault k d = (if k \<in> fst ` set d then d else d @ [(k, [])])"

definition dict_add :: "'k \<Rightarrow> nat \<Rightarrow> ('k \<times> nat list) list \<Rightarrow> error + ('k \<times> nat list) list" where
  "dict_add k el d =
     (if k \<in> fst ` set d
      then Inr (map (\<lambda>(k', s). if k' = k then (k', set_add s el) else (k', s)) d)
      else Inl KeyError)"

subsection \<open>Grouping the elements\<close>

text \<open>
  The key of an element's orientation, \<^verbatim>\<open>'_'.join(str(i) for i in x._orientation) if
  hasattr(x, '_orientation') else None\<close>: iterating over \<^verbatim>\<open>None\<close> is a \<^verbatim>\<open>TypeError\<close>.
\<close>

definition orientation_key :: "element \<Rightarrow> error + string option" where
  "orientation_key el =
     (case orientation el of
        NoAttr \<Rightarrow> Inr None
      | AttrNone \<Rightarrow> Inl TypeError
      | Vec cs \<Rightarrow> Inr (Some (join ''_'' cs)))"

text \<open>The body of the loop over \<^verbatim>\<open>sub_elements\<close>, for the orientation \<open>o\<close> at hand.\<close>

definition bucket_step ::
  "world \<Rightarrow> string option \<Rightarrow> nat \<Rightarrow> (string option \<times> nat list) list
     \<Rightarrow> error + (string option \<times> nat list) list" where
  "bucket_step w ori el d =
     (case orientation (element_of w el) of
        NoAttr \<Rightarrow> dict_add None el d
      | AttrNone \<Rightarrow> Inl TypeError
      | Vec cs \<Rightarrow> (if Some (join ''_'' cs) = ori then dict_add ori el d else Inr d))"

text \<open>
  The sub-grouping by orientation of the elements of one type and section. The set of
  orientation keys is iterated in the order \<open>remdups\<close> leaves, one of the orders Python
  may choose.
\<close>

definition group_by_orientation ::
  "world \<Rightarrow> nat list \<Rightarrow> error + (string option \<times> nat list) list" where
  "group_by_orientation w sub_elements =
     (case map_err (\<lambda>e. orientation_key (element_of w e)) sub_elements of
        Inl e \<Rightarrow> Inl e
      | Inr keys \<Rightarrow>
          fold_err (\<lambda>ori d. fold_err (bucket_step w ori) sub_elements (setdefault ori d))
                   (remdups keys) [])"

definition group_by_section ::
  "world \<Rightarrow> nat list \<Rightarrow> error + (nat option \<times> (string option \<times> nat list) list) list" where
  "group_by_section w els =
     map_err (\<lambda>s. case group_by_orientation w
                         (filter (\<lambda>e. el_section (element_of w e) = s) els) of
                    Inl e \<Rightarrow> Inl e
                  | Inr d \<Rightarrow> Inr (s, d))
             (remdups (map (\<lambda>e. el_section (element_of w e)) els))"

text \<open>\<^verbatim>\<open>AbaqusPart._group_elements\<close>: \<^verbatim>\<open>{eltype: {section: {orientation: elements}}}\<close>.\<close>

definition group_elements ::
  "world \<Rightarrow> error + (string \<times> (nat option \<times> (string option \<times> nat list) list) list) list" where
  "group_elements w =
     map_err (\<lambda>t. case group_by_section w
                         (filter (\<lambda>e. eltype (element_of w e) = t) (elements (part w))) of
                    Inl e \<Rightarrow> Inl e
                  | Inr d \<Rightarrow> Inr (t, d))
             (remdups (map (\<lambda>e. eltype (element_of w e)) (elements (part w))))"

text \<open>The buckets of a grouping, each with its type and section, in emission order.\<close>

definition buckets ::
  "(string \<times> (nat option \<times> (string option \<times> nat list) list) list) list
     \<Rightarrow> (string \<times> nat option \<times> string option \<times> nat list) list" where
  "buckets grouped =
     concat (map (\<lambda>(t, secs). concat (map (\<lambda>(s, obs).
                    map (\<lambda>(ori, els). (t, s, ori, els)) obs) secs))
                 grouped)"

subsection \<open>The job data\<close>

text \<open>
  \<^verbatim>\<open>_generate_jobdata(element)\<close> of \<^verbatim>\<open>elements.py\<close>:
  \<^verbatim>\<open>'{0}, {1}\n'.format(element.key+1, ','.join(str(node.key+1) for node in element.nodes))\<close>.
  Adding 1 to a key that is \<^verbatim>\<open>None\<close> is a \<^verbatim>\<open>TypeError\<close>. Nothing is assigned.
\<close>

definition node_number :: "world \<Rightarrow> nat \<Rightarrow> error + string" where
  "node_number w n =
     (case key (node_of w n) of None \<Rightarrow> Inl TypeError | Some k \<Rightarrow> Inr (str_int (k + 1)))"

definition element_jobdata :: "world \<Rightarrow> nat \<Rightarrow> error + string" where
  "element_jobdata w e =
     (case el_key (element_of w e) of
        None \<Rightarrow> Inl TypeError
      | Some k \<Rightarrow>
          (case map_err (node_number w) (el_nodes (element_of w e)) of
             Inl err \<Rightarrow> Inl err
           | Inr ks \<Rightarrow> Inr (str_int (k + 1) @ '', '' @ join '','' ks @ [CHR 0x0A])))"

text \<open>
  The pieces appended to \<^verbatim>\<open>part_data\<close>. The text of a node, a group, a section and a
  release comes from their own \<^verbatim>\<open>_generate_jobdata\<close> methods, which are not among the
  sources: such a piece records the object and the arguments of the call.
\<close>

datatype fragment =
    NodeHeader
  | NodeData nat
  | ElementHeader string
  | ElementData string
  | GroupData nat
  | SectionData nat string "string list option"
  | ReleaseHeader
  | ReleaseData nat

text \<open>
  One pass of the innermost loop of \<^verbatim>\<open>AbaqusPart._generate_jobdata\<close>: the element
  declaration, the element lines, then the auxiliary element set, which is created and
  added to the part with \<^verbatim>\<open>add_group\<close>, and the section assignment. \<^verbatim>\<open>if orientation\<close> is
  false for \<^verbatim>\<open>None\<close> and for the empty text; \<^verbatim>\<open>section.name\<close> of what is not a section is an
  \<^verbatim>\<open>AttributeError\<close>.
\<close>

definition emit_bucket ::
  "globals \<Rightarrow> string \<times> nat option \<times> string option \<times> nat list
     \<Rightarrow> fragment list \<times> world \<Rightarrow> (error + fragment list) \<times> world" where
  "emit_bucket g b dw =
     (case b of (t, so, ori, els) \<Rightarrow> case dw of (part_data, w) \<Rightarrow>
        (case map_err (element_jobdata w) els of
           Inl e \<Rightarrow> (Inl e, w)
         | Inr ls \<Rightarrow>
             (case so of
                None \<Rightarrow> (Inl AttributeError, w)
              | Some s \<Rightarrow>
                  (let oriented = (case ori of None \<Rightarrow> False | Some x \<Rightarrow> x \<noteq> []);
                       name = (if oriented
                               then ''aux_'' @ t @ ''_'' @ s_name (section_of w s) @ ''_''
                                      @ remove_dots (the ori)
                               else ''aux_'' @ t @ ''_'' @ s_name (section_of w s));
                       (gid, w1) = new_group name ElementsGroup els w
                   in case add_group g gid w1 of
                        (Inl e, w2) \<Rightarrow> (Inl e, w2)
                      | (Inr aux, w2) \<Rightarrow>
                          (Inr (part_data @ [ElementHeader t] @ map ElementData ls
                                  @ [GroupData aux,
                                     SectionData s (g_name (group_of w2 aux))
                                       (if oriented then Some (split_on CHR ''_'' (the ori))
                                        else None)]),
                           w2)))))"

fun emit_buckets ::
  "globals \<Rightarrow> (string \<times> nat option \<times> string option \<times> nat list) list
     \<Rightarrow> fragment list \<times> world \<Rightarrow> (error + fragment list) \<times> world" where
  "emit_buckets g [] dw = (Inr (fst dw), snd dw)"
| "emit_buckets g (b # bs) dw =
     (case emit_bucket g b dw of
        (Inl e, w1) \<Rightarrow> (Inl e, w1)
      | (Inr d1, w1) \<Rightarrow> emit_buckets g bs (d1, w1))"

text \<open>The list \<^verbatim>\<open>part_data\<close> that \<^verbatim>\<open>AbaqusPart._generate_jobdata\<close> builds, and the state the
  call leaves.\<close>

definition part_data :: "globals \<Rightarrow> world \<Rightarrow> (error + fragment list) \<times> world" where
  "part_data g w =
     (case group_elements w of
        Inl e \<Rightarrow> (Inl e, w)
      | Inr grouped \<Rightarrow>
          (case emit_buckets g (buckets grouped)
                  (NodeHeader # map NodeData (nodes (part w)), w) of
             (Inl e, w1) \<Rightarrow> (Inl e, w1)
           | (Inr d, w1) \<Rightarrow>
               (Inr (d @ map GroupData (groups w1)
                       @ (if releases (part w1) \<noteq> []
                          then ReleaseHeader # map ReleaseData (releases (part w1))
                          else [])),
                w1)))"

text \<open>
  The text returned: the pieces joined, between the part's header and footer. \<open>ext\<close>
  stands for the methods that are not among the sources.
\<close>

definition fragment_text :: "(fragment \<Rightarrow> string) \<Rightarrow> fragment \<Rightarrow> string" where
  "fragment_text ext f =
     (case f of
        NodeHeader \<Rightarrow> ''*Node'' @ [CHR 0x0A]
      | ElementHeader t \<Rightarrow> ''*Element, type='' @ t @ [CHR 0x0A]
      | ElementData l \<Rightarrow> l
      | ReleaseHeader \<Rightarrow> [CHR 0x0A] @ ''*Release'' @ [CHR 0x0A]
      | _ \<Rightarrow> ext f)"

definition generate_jobdata ::
  "(fragment \<Rightarrow> string) \<Rightarrow> globals \<Rightarrow> world \<Rightarrow> (error + string) \<times> world" where
  "generate_jobdata ext g w =
     (case part_data g w of
        (Inl e, w1) \<Rightarrow> (Inl e, w1)
      | (Inr d, w1) \<Rightarrow>
          (Inr (''*Part, name='' @ p_name (part w1) @ [CHR 0x0A]
                  @ concat (map (fragment_text ext) d)
                  @ ''*End Part'' @ [CHR 0x0A] @ ''**'' @ [CHR 0x0A]),
           w1))"


text \<open>
  What a call may change when all it does to the entity graph is to add element groups
  to the part: every object but the groups, and every collection of the part but the
  element groups, is as before, and the element groups of before are all still there.
\<close>

definition only_element_groups_added :: "world \<Rightarrow> world \<Rightarrow> bool" where
  "only_element_groups_added w w' =
     (node_of w' = node_of w \<and> element_of w' = element_of w
      \<and> section_of w' = section_of w \<and> material_of w' = material_of w
      \<and> part w' = (part w)\<lparr>elementsgroups := elementsgroups (part w')\<rparr>
      \<and> (\<exists>new. elementsgroups (part w') = elementsgroups (part w) @ new))"

text \<open>Every set of elements held by a dictionary lies within \<open>S\<close>.\<close>

definition members_in :: "nat set \<Rightarrow> ('k \<times> nat list) list \<Rightarrow> bool" where
  "members_in S d = (\<forall>b \<in> set d. set (snd b) \<subseteq> S)"

subsection \<open>Example worlds\<close>

text \<open>
  Node objects \<open>0, 1, 2, \<dots>\<close> of the examples: node 0 at the origin, node 1 at
  \<open>(3/2, 0, 0)\<close>, node 2 at \<open>(3/4, 0, 0)\<close>, every other node \<open>i\<close> at \<open>(5 i, 0, 0)\<close>; none has
  a key or an owner yet. The stand-in for \<^verbatim>\<open>geometric_key\<close> tells the example points apart.
\<close>

definition example_xyz :: "nat \<Rightarrow> point" where
  "example_xyz i = (if i = 0 then (0, 0, 0) else if i = 1 then (3/2, 0, 0)
                    else if i = 2 then (3/4, 0, 0) else (5 * real i, 0, 0))"

definition example_gkey :: "point \<Rightarrow> string" where
  "example_gkey p = (case p of (x, y, z) \<Rightarrow>
      if x = 0 then ''0.000,0.000,0.000'' else if x = 3/2 then ''1.500,0.000,0.000''
      else if x = 3/4 then ''0.750,0.000,0.000'' else if x = 15 then ''15.000,0.000,0.000''
      else ''other'')"

definition example_globals :: globals where
  "example_globals = \<lparr>VERBOSE = False, POINT_OVERLAP = False, GLOBAL_TOLERANCE = 1,
                       geometric_key = example_gkey\<rparr>"

definition verbose_globals :: globals where
  "verbose_globals = example_globals\<lparr>VERBOSE := True\<rparr>"

definition empty_part :: part where
  "empty_part = \<lparr>part_id = 0, p_name = ''part'', p_registration = None, p_key = None,
                  nodes = [], gkey_node = Map.empty, sections = [], materials = [],
                  elements = [], releases = [], nodesgroups = [], elementsgroups = [],
                  facesgroups = []\<rparr>"

text \<open>
  Element objects of the examples, all on section 0 and none registered or numbered yet:
  element 1 is a truss between nodes 0 and 3, as \<^verbatim>\<open>AbaqusTrussElement\<close> builds it
  (\<^verbatim>\<open>_orientation = None\<close>); element 2 is a three-node shell without the attribute; every
  other element is a beam between nodes 0 and 3 with the default frame of
  \<^verbatim>\<open>AbaqusBeamElement\<close>.
\<close>

definition example_element :: "nat \<Rightarrow> element" where
  "example_element i =
     (if i = 1 then \<lparr>el_nodes = [0, 3], el_section = Some 0, el_key = None,
                       eltype = ''T3D2'', orientation = AttrNone, el_registration = None\<rparr>
      else if i = 2 then \<lparr>el_nodes = [0, 3, 4], el_section = Some 0, el_key = None,
                            eltype = ''S3'', orientation = NoAttr, el_registration = None\<rparr>
      else \<lparr>el_nodes = [0, 3], el_section = Some 0, el_key = None,
             eltype = ''B31'', orientation = Vec [''0.0'', ''0.0'', ''-1.0''],
             el_registration = None\<rparr>)"

definition example_world :: world where
  "example_world =
     \<lparr>node_of = (\<lambda>i. \<lparr>xyz = example_xyz i, key = None, registration = None,
                        connected_elements = []\<rparr>),
      element_of = example_element,
      section_of = (\<lambda>i. \<lparr>s_name = ''sec'', s_material = Some 0, s_key = None,
                           s_registration = None\<rparr>),
      material_of = (\<lambda>i. \<lparr>m_name = ''steel'', m_key = None, m_registration = None\<rparr>),
      group_of = (\<lambda>i. \<lparr>g_name = ''group'', g_kind = ElementsGroup, g_members = [],
                         g_registration = None\<rparr>),
      next_group = 0,
      part = empty_part\<rparr>"


text \<open>
  The part after the beam element 0 has been added to the fresh part (which registers
  its nodes 0 and 3, its section and its material) and keys have been assigned from 0;
  and the part after the truss element 1 has been added instead.
\<close>

definition beam_world :: world where
  "beam_world = assign_keys 0 (snd (add_element example_globals 0 True example_world))"

definition truss_world :: world where
  "truss_world = assign_keys 0 (snd (add_element example_globals 1 True example_world))"


section \<open>Facts about the node operations\<close>

lemma set_add_set: "set (set_add xs x) = insert x (set xs)"
  by (auto simp: set_add_def)












subsection \<open>Evaluating the examples\<close>




subsection \<open>Key assignment\<close>










subsection \<open>Adding a node at an occupied location\<close>







subsection \<open>Adding a node while \<^verbatim>\<open>VERBOSE\<close> is on\<close>

text \<open>
  \<^bold>\<open>Claim C10\<close>. If \<^verbatim>\<open>VERBOSE\<close> is on, \<^verbatim>\<open>add_node(n)\<close> returns \<open>n\<close> and changes nothing: the
  node set, the geometric-key index and the registration of \<open>n\<close> are as before, for a
  node already in the part and for one that is not; so no sequence of \<^verbatim>\<open>add_node\<close> calls
  adds a node.
\<close>

theorem add_node_verbose_registers_nothing:
  "VERBOSE g \<Longrightarrow>
     add_node g n w = (Inr n, w)
     \<and> fold (\<lambda>n w. snd (add_node g n w)) ns w = w"
proof -
  assume v: "VERBOSE g"
  have one: "\<And>m u. add_node g m u = (Inr m, u)" using v by (simp add: add_node_def)
  have "fold (\<lambda>n w. snd (add_node g n w)) ns w = w"
    by (induction ns) (simp_all add: one)
  with one show ?thesis by simp
qed

theorem add_node_verbose_registers_nothing_witness:
  "VERBOSE verbose_globals
   \<and> \<not> contains_node example_world 3
   \<and> add_node verbose_globals 3 example_world = (Inr 3, example_world)
   \<and> nodes (part (snd (add_node verbose_globals 3 example_world))) = []
   \<and> registration (node_of (snd (add_node verbose_globals 3 example_world)) 3) = None"
proof -
  have v: "VERBOSE verbose_globals" by (simp add: verbose_globals_def)
  from add_node_verbose_registers_nothing [OF v, of 3 example_world "[]"]
  show ?thesis using v
    by (simp add: contains_node_def example_world_def empty_part_def)
qed

subsection \<open>The nearest nodes\<close>






section \<open>Facts about the Abaqus part\<close>

subsection \<open>Loops that may raise\<close>

lemma map_err_Inr:
  "map_err f xs = Inr ys \<Longrightarrow> list_all2 (\<lambda>x y. f x = Inr y) xs ys"
  by (induction xs arbitrary: ys) (auto split: sum.splits)

lemma map_err_total:
  "(\<And>x. x \<in> set xs \<Longrightarrow> f x = Inr (h x)) \<Longrightarrow> map_err f xs = Inr (map h xs)"
  by (induction xs) auto

lemma fold_err_invariant:
  assumes "fold_err f xs s = Inr s'" and "P s"
    and "\<And>x a b. x \<in> set xs \<Longrightarrow> P a \<Longrightarrow> f x a = Inr b \<Longrightarrow> P b"
  shows "P s'"
  using assms
proof (induction xs arbitrary: s)
  case Nil
  then show ?case by simp
next
  case (Cons x xs)
  from Cons.prems(1) obtain s1 where s1: "f x s = Inr s1" "fold_err f xs s1 = Inr s'"
    by (auto split: sum.splits)
  have "P s1" using Cons.prems(2,3) s1(1) by auto
  then show ?case using Cons.IH [OF s1(2)] Cons.prems(3) by auto
qed

subsection \<open>What the registry operations leave alone\<close>





lemma add_elements_contained:
  "set es \<subseteq> set (elements (part w)) \<Longrightarrow> add_elements g es w = (Inr es, w)"
  by (induction es) (simp_all add: add_element_def contains_element_def)

lemma only_element_groups_added_refl: "only_element_groups_added w w"
  by (simp add: only_element_groups_added_def)

lemma only_element_groups_added_trans:
  assumes "only_element_groups_added w w1" and "only_element_groups_added w1 w2"
  shows "only_element_groups_added w w2"
proof -
  from assms obtain n1 n2 where
    "elementsgroups (part w1) = elementsgroups (part w) @ n1"
    "elementsgroups (part w2) = elementsgroups (part w1) @ n2"
    by (auto simp: only_element_groups_added_def)
  then have "elementsgroups (part w2) = elementsgroups (part w) @ (n1 @ n2)" by simp
  moreover have "part w2 = (part w)\<lparr>elementsgroups := elementsgroups (part w2)\<rparr>"
  proof -
    have "part w2 = (part w1)\<lparr>elementsgroups := elementsgroups (part w2)\<rparr>"
      using assms(2) by (simp add: only_element_groups_added_def)
    also have "part w1 = (part w)\<lparr>elementsgroups := elementsgroups (part w1)\<rparr>"
      using assms(1) by (simp add: only_element_groups_added_def)
    finally show ?thesis by simp
  qed
  ultimately show ?thesis
    using assms unfolding only_element_groups_added_def by (intro conjI exI) simp_all
qed

lemma only_element_groups_added_elements:
  "only_element_groups_added w w' \<Longrightarrow> elements (part w') = elements (part w)"
  unfolding only_element_groups_added_def
  by (metis (no_types, lifting) part.select_convs(9) part.surjective part.update_convs(12))

lemma add_group_elements_group:
  assumes "g_kind (group_of w gid) = ElementsGroup"
    and "set (g_members (group_of w gid)) \<subseteq> set (elements (part w))"
  shows "fst (add_group g gid w) = Inr gid"
    and "only_element_groups_added w (snd (add_group g gid w))"
    and "group_of (snd (add_group g gid w)) gid = group_of w gid
         \<or> group_of (snd (add_group g gid w)) gid
             = (group_of w gid)\<lparr>g_registration := Some (part_id (part w))\<rparr>"
proof -
  have m: "add_group_members g gid w = (Inr (), w)"
    using assms by (simp add: add_group_members_def add_elements_contained)
  show "fst (add_group g gid w) = Inr gid"
    by (simp add: add_group_def m)
  show "only_element_groups_added w (snd (add_group g gid w))"
    using assms(1)
    by (simp add: add_group_def m register_group_def only_element_groups_added_def Let_def)
  show "group_of (snd (add_group g gid w)) gid = group_of w gid
         \<or> group_of (snd (add_group g gid w)) gid
             = (group_of w gid)\<lparr>g_registration := Some (part_id (part w))\<rparr>"
    by (simp add: add_group_def m register_group_def Let_def)
qed

lemma emit_bucket_frame:
  assumes "set els \<subseteq> set (elements (part w))"
  shows "only_element_groups_added w (snd (emit_bucket g (t, so, ori, els) (d, w)))"
proof (cases "map_err (element_jobdata w) els")
  case (Inl e)
  then show ?thesis by (simp add: emit_bucket_def only_element_groups_added_refl)
next
  case (Inr ls)
  show ?thesis
  proof (cases so)
    case None
    with Inr show ?thesis by (simp add: emit_bucket_def only_element_groups_added_refl)
  next
    case (Some s)
    define name where "name = (if (case ori of None \<Rightarrow> False | Some x \<Rightarrow> x \<noteq> [])
                               then ''aux_'' @ t @ ''_'' @ s_name (section_of w s) @ ''_''
                                      @ remove_dots (the ori)
                               else ''aux_'' @ t @ ''_'' @ s_name (section_of w s))"
    define w1 where "w1 = snd (new_group name ElementsGroup els w)"
    define gid where "gid = next_group w"
    have ng: "new_group name ElementsGroup els w = (gid, w1)"
      by (simp add: new_group_def w1_def gid_def)
    have k: "g_kind (group_of w1 gid) = ElementsGroup"
      and mem: "set (g_members (group_of w1 gid)) \<subseteq> set (elements (part w1))"
      using assms by (simp_all add: w1_def gid_def new_group_def)
    have f1: "only_element_groups_added w w1"
      by (simp add: w1_def new_group_def only_element_groups_added_def)
    have f2: "only_element_groups_added w1 (snd (add_group g gid w1))"
      using add_group_elements_group(2) [OF k mem] .
    have r: "fst (add_group g gid w1) = Inr gid"
      using add_group_elements_group(1) [OF k mem] .
    have "snd (emit_bucket g (t, so, ori, els) (d, w)) = snd (add_group g gid w1)"
      using Inr Some ng r
      by (cases "add_group g gid w1")
         (simp add: emit_bucket_def Let_def name_def [symmetric] split: sum.splits)
    then show ?thesis using f1 f2 by (simp add: only_element_groups_added_trans)
  qed
qed

lemma emit_buckets_frame:
  assumes "\<forall>b \<in> set bs. set (snd (snd (snd b))) \<subseteq> set (elements (part w))"
  shows "only_element_groups_added w (snd (emit_buckets g bs (d, w)))"
  using assms
proof (induction bs arbitrary: d w)
  case Nil
  then show ?case by (simp add: only_element_groups_added_refl)
next
  case (Cons b bs)
  obtain t so ori els where b: "b = (t, so, ori, els)" by (cases b) auto
  let ?r = "emit_bucket g b (d, w)"
  have f: "only_element_groups_added w (snd ?r)"
    using Cons.prems unfolding b by (intro emit_bucket_frame) simp
  show ?case
  proof (cases "fst ?r")
    case (Inl e)
    then have "snd (emit_buckets g (b # bs) (d, w)) = snd ?r"
      by (cases ?r) simp
    with f show ?thesis by simp
  next
    case (Inr d1)
    then have s: "snd (emit_buckets g (b # bs) (d, w)) = snd (emit_buckets g bs (d1, snd ?r))"
      by (cases ?r) simp
    have "\<forall>b \<in> set bs. set (snd (snd (snd b))) \<subseteq> set (elements (part (snd ?r)))"
      using Cons.prems only_element_groups_added_elements [OF f] by simp
    from Cons.IH [OF this] f show ?thesis
      unfolding s by (blast intro: only_element_groups_added_trans)
  qed
qed

subsection \<open>The buckets hold elements of the part\<close>

lemma members_in_setdefault: "members_in S d \<Longrightarrow> members_in S (setdefault k d)"
  by (auto simp: members_in_def setdefault_def)

lemma map_err_Inr_set:
  "map_err f xs = Inr ys \<Longrightarrow> y \<in> set ys \<Longrightarrow> \<exists>x \<in> set xs. f x = Inr y"
  by (induction xs arbitrary: ys) (auto split: sum.splits)

lemma members_in_dict_add:
  "members_in S d \<Longrightarrow> el \<in> S \<Longrightarrow> dict_add k el d = Inr d' \<Longrightarrow> members_in S d'"
  by (fastforce simp: members_in_def dict_add_def set_add_set split: if_splits)

lemma members_in_bucket_step:
  "members_in S d \<Longrightarrow> el \<in> S \<Longrightarrow> bucket_step w ori el d = Inr d' \<Longrightarrow> members_in S d'"
  by (auto simp: bucket_step_def split: orientation_attr.splits if_splits
           intro: members_in_dict_add)

lemma group_by_orientation_within:
  assumes "group_by_orientation w sub = Inr d"
  shows "members_in (set sub) d"
proof -
  from assms obtain keys where
    f: "fold_err (\<lambda>ori d. fold_err (bucket_step w ori) sub (setdefault ori d)) (remdups keys) [] = Inr d"
    by (auto simp: group_by_orientation_def split: sum.splits)
  have inner: "members_in (set sub) b"
    if "members_in (set sub) a" and "fold_err (bucket_step w ori) sub (setdefault ori a) = Inr b"
    for ori a b
    using that(2) members_in_setdefault [OF that(1)]
    by (rule fold_err_invariant) (auto intro: members_in_bucket_step)
  show ?thesis
  proof (rule fold_err_invariant [OF f])
    show "members_in (set sub) []" by (simp add: members_in_def)
  next
    fix x a b
    assume "members_in (set sub) a"
      and "fold_err (bucket_step w x) sub (setdefault x a) = Inr b"
    then show "members_in (set sub) b" by (rule inner)
  qed
qed

lemma group_by_section_within:
  assumes "group_by_section w els = Inr secs"
  shows "\<forall>sd \<in> set secs. members_in (set els) (snd sd)"
proof -
  let ?f = "\<lambda>s. case group_by_orientation w (filter (\<lambda>e. el_section (element_of w e) = s) els) of
                    Inl e \<Rightarrow> Inl e | Inr d \<Rightarrow> Inr (s, d)"
  from assms have "\<forall>y \<in> set secs. \<exists>x. ?f x = Inr y"
    unfolding group_by_section_def by (blast dest: map_err_Inr_set)
  then show ?thesis
  proof (intro ballI)
    fix sd assume a: "\<forall>y \<in> set secs. \<exists>x. ?f x = Inr y" "sd \<in> set secs"
    then obtain x where "?f x = Inr sd" by blast
    then obtain d where "group_by_orientation w (filter (\<lambda>e. el_section (element_of w e) = x) els) = Inr d"
      "sd = (x, d)" by (auto split: sum.splits)
    with group_by_orientation_within [OF this(1)] show "members_in (set els) (snd sd)"
      by (auto simp: members_in_def)
  qed
qed

lemma group_elements_within:
  assumes "group_elements w = Inr grouped"
  shows "\<forall>b \<in> set (buckets grouped). set (snd (snd (snd b))) \<subseteq> set (elements (part w))"
proof -
  let ?els = "elements (part w)"
  let ?f = "\<lambda>t. case group_by_section w (filter (\<lambda>e. eltype (element_of w e) = t) ?els) of
                    Inl e \<Rightarrow> Inl e | Inr d \<Rightarrow> Inr (t, d)"
  from assms have ex: "\<forall>y \<in> set grouped. \<exists>x. ?f x = Inr y"
    unfolding group_elements_def by (blast dest: map_err_Inr_set)
  have "\<forall>sd \<in> set (snd ts). members_in (set ?els) (snd sd)" if "ts \<in> set grouped" for ts
  proof -
    from ex that obtain x where "?f x = Inr ts" by blast
    then obtain secs where s: "group_by_section w (filter (\<lambda>e. eltype (element_of w e) = x) ?els) = Inr secs"
      "ts = (x, secs)" by (auto split: sum.splits)
    from group_by_section_within [OF s(1)] s(2) show ?thesis
      by (auto simp: members_in_def)
  qed
  then show ?thesis
    by (fastforce simp: buckets_def members_in_def)
qed

lemma part_data_frame: "only_element_groups_added w (snd (part_data g w))"
proof (cases "group_elements w")
  case (Inl e)
  then show ?thesis by (simp add: part_data_def only_element_groups_added_refl)
next
  case (Inr grouped)
  let ?r = "emit_buckets g (buckets grouped) (NodeHeader # map NodeData (nodes (part w)), w)"
  have "only_element_groups_added w (snd ?r)"
    using group_elements_within [OF Inr] by (rule emit_buckets_frame)
  moreover have "snd (part_data g w) = snd ?r"
    using Inr by (cases ?r) (auto simp: part_data_def split: sum.splits)
  ultimately show ?thesis by simp
qed

subsection \<open>The shape of the job data\<close>




lemma generate_jobdata_snd: "snd (generate_jobdata ext g w) = snd (part_data g w)"
  by (cases "part_data g w") (auto simp: generate_jobdata_def split: sum.splits)

lemma generate_jobdata_fst_Inl:
  "fst (part_data g w) = Inl e \<Longrightarrow> fst (generate_jobdata ext g w) = Inl e"
  by (cases "part_data g w") (auto simp: generate_jobdata_def split: sum.splits)

subsection \<open>Serialization and the entity graph\<close>

text \<open>
  \<^bold>\<open>Claim C4\<close>, as stated, fails: generating the job data of a part with one beam element
  and no group leaves the part with an element group, the auxiliary set that
  \<^verbatim>\<open>_generate_jobdata\<close> creates for the section assignment and registers with \<^verbatim>\<open>add_group\<close>.
\<close>

theorem generate_jobdata_adds_element_groups_counterexample:
  "elementsgroups (part beam_world) = []
   \<and> elementsgroups (part (snd (generate_jobdata (\<lambda>f. []) example_globals beam_world))) = [0]"
  by code_simp

text \<open>
  \<^bold>\<open>Claim C4\<close>, amended. Generating the job data of a part leaves its nodes, its
  geometric-key index, its elements, sections, materials and releases, its node groups
  and face groups, and every node, element, section and material object as they were,
  whether or not the call raises; the element groups of the part are all kept, and the
  auxiliary element sets of the buckets may be added behind them.
\<close>

theorem generate_jobdata_changes_only_element_groups:
  "nodes (part (snd (generate_jobdata ext g w))) = nodes (part w)
   \<and> gkey_node (part (snd (generate_jobdata ext g w))) = gkey_node (part w)
   \<and> elements (part (snd (generate_jobdata ext g w))) = elements (part w)
   \<and> sections (part (snd (generate_jobdata ext g w))) = sections (part w)
   \<and> materials (part (snd (generate_jobdata ext g w))) = materials (part w)
   \<and> releases (part (snd (generate_jobdata ext g w))) = releases (part w)
   \<and> nodesgroups (part (snd (generate_jobdata ext g w))) = nodesgroups (part w)
   \<and> facesgroups (part (snd (generate_jobdata ext g w))) = facesgroups (part w)
   \<and> node_of (snd (generate_jobdata ext g w)) = node_of w
   \<and> element_of (snd (generate_jobdata ext g w)) = element_of w
   \<and> section_of (snd (generate_jobdata ext g w)) = section_of w
   \<and> material_of (snd (generate_jobdata ext g w)) = material_of w
   \<and> (\<exists>new. elementsgroups (part (snd (generate_jobdata ext g w)))
               = elementsgroups (part w) @ new)"
proof -
  let ?w = "snd (generate_jobdata ext g w)"
  have f: "only_element_groups_added w ?w"
    unfolding generate_jobdata_snd by (rule part_data_frame)
  then have p: "part ?w = (part w)\<lparr>elementsgroups := elementsgroups (part ?w)\<rparr>"
    by (simp add: only_element_groups_added_def)
  have "nodes (part ?w) = nodes (part w)" "gkey_node (part ?w) = gkey_node (part w)"
    "elements (part ?w) = elements (part w)" "sections (part ?w) = sections (part w)"
    "materials (part ?w) = materials (part w)" "releases (part ?w) = releases (part w)"
    "nodesgroups (part ?w) = nodesgroups (part w)" "facesgroups (part ?w) = facesgroups (part w)"
    by (subst p, simp)+
  with f show ?thesis by (simp add: only_element_groups_added_def)
qed

subsection \<open>Grouping a part that holds a truss\<close>

text \<open>
  \<^bold>\<open>Claim C5\<close>: the code at a failing input. A part whose only element is a truss, built
  as \<^verbatim>\<open>AbaqusTrussElement\<close> builds it with \<^verbatim>\<open>_orientation = None\<close>: \<^verbatim>\<open>_group_elements\<close> raises
  \<^verbatim>\<open>TypeError\<close> while it collects the orientation keys, so there is no partition, and
  \<^verbatim>\<open>_generate_jobdata\<close> emits no element declaration.
\<close>

theorem group_elements_truss_raises:
  "elements (part truss_world) = [1]
   \<and> eltype (element_of truss_world 1) = ''T3D2''
   \<and> orientation (element_of truss_world 1) = AttrNone
   \<and> group_elements truss_world = Inl TypeError
   \<and> fst (generate_jobdata (\<lambda>f. []) example_globals truss_world) = Inl TypeError"
  by code_simp

subsection \<open>The element line\<close>

lemma element_jobdata_line:
  assumes "el_key (element_of w e) = Some k"
    and "\<forall>n \<in> set (el_nodes (element_of w e)). key (node_of w n) \<noteq> None"
  shows "element_jobdata w e =
           Inr (str_int (k + 1) @ '', ''
                @ join '','' (map (\<lambda>n. str_int (the (key (node_of w n)) + 1))
                                  (el_nodes (element_of w e)))
                @ [CHR 0x0A])"
proof -
  have "map_err (node_number w) (el_nodes (element_of w e))
          = Inr (map (\<lambda>n. str_int (the (key (node_of w n)) + 1)) (el_nodes (element_of w e)))"
    using assms(2) by (intro map_err_total) (auto simp: node_number_def)
  then show ?thesis using assms(1) by (simp add: element_jobdata_def)
qed

text \<open>
  \<^bold>\<open>Claim C6\<close>. For an element that has a key and whose nodes have keys, the line emitted
  is the element's key plus one, then \<^verbatim>\<open>", "\<close>, then the keys plus one of its nodes in
  order, separated by \<^verbatim>\<open>","\<close>, then a newline. The shift is made in the text only:
  generating the job data leaves the key of every node and of every element as it was.
\<close>

theorem element_jobdata_one_based:
  assumes "el_key (element_of w e) = Some k"
    and "\<forall>n \<in> set (el_nodes (element_of w e)). key (node_of w n) \<noteq> None"
  shows "element_jobdata w e =
           Inr (str_int (k + 1) @ '', ''
                @ join '','' (map (\<lambda>n. str_int (the (key (node_of w n)) + 1))
                                  (el_nodes (element_of w e)))
                @ [CHR 0x0A])
         \<and> key (node_of (snd (generate_jobdata ext g w)) m) = key (node_of w m)
         \<and> el_key (element_of (snd (generate_jobdata ext g w)) e') = el_key (element_of w e')"
proof -
  have "only_element_groups_added w (snd (generate_jobdata ext g w))"
    unfolding generate_jobdata_snd by (rule part_data_frame)
  then show ?thesis
    using element_jobdata_line [OF assms] by (simp add: only_element_groups_added_def)
qed

theorem element_jobdata_one_based_witness:
  "el_key (element_of beam_world 0) = Some 0
   \<and> el_nodes (element_of beam_world 0) = [0, 3]
   \<and> key (node_of beam_world 0) = Some 0 \<and> key (node_of beam_world 3) = Some 1
   \<and> element_jobdata beam_world 0 = Inr (''1, 1,2'' @ [CHR 0x0A])
   \<and> key (node_of (snd (generate_jobdata (\<lambda>f. []) example_globals beam_world)) 3) = Some 1
   \<and> el_key (element_of (snd (generate_jobdata (\<lambda>f. []) example_globals beam_world)) 0) = Some 0"
proof -
  have k: "el_key (element_of beam_world 0) = Some 0" by code_simp
  have ns: "el_nodes (element_of beam_world 0) = [0, 3]" by code_simp
  have k0: "key (node_of beam_world 0) = Some 0" and k3: "key (node_of beam_world 3) = Some 1"
    by code_simp+
  have h: "\<forall>n \<in> set (el_nodes (element_of beam_world 0)). key (node_of beam_world n) \<noteq> None"
    using k0 k3 by (simp add: ns)
  have s: "str_int 1 = ''1''" "str_int 2 = ''2''" by code_simp+
  from element_jobdata_one_based [OF k h, of "\<lambda>f. []" example_globals 3 0]
  show ?thesis using k ns k0 k3 by (simp add: s)
qed

subsection \<open>The node block\<close>








section \<open>Facts about sections and elements\<close>

subsection \<open>Adding a section\<close>






subsection \<open>Adding an element\<close>












end
